theory Spec2Isabelle
  imports Complex_Main "HOL-Library.AList" "HOL-Library.Log_Nat" "HOL-Library.Multiset"
begin

section \<open>Values of a data frame\<close>

text \<open>
  The columns the preprocessor works on are mixed columns of the literature table (numbers,
  short strings such as \<^verbatim>\<open>"20,30"\<close> or \<^verbatim>\<open>"SMD"\<close>, holes), so a cell read with
  \<^verbatim>\<open>df.loc[idx, col]\<close> is a Python object: a finite number (\<^verbatim>\<open>int\<close> or \<^verbatim>\<open>float\<close>),
  the float \<^verbatim>\<open>nan\<close>, or a \<^verbatim>\<open>str\<close>. Infinities, \<^verbatim>\<open>None\<close> and containers are not cells
  of the model.
\<close>

datatype cell = Num real | NaN | Str string

datatype exn = ZeroDivisionError | ValueError | AttributeError | TypeError | KeyError

text \<open>
  One record of the frame: the columns of the frame in order, each with the value this record
  has there. \<^verbatim>\<open>col in df.columns\<close> is \<open>map_of r col \<noteq> None\<close>, and
  \<^verbatim>\<open>df.loc[idx, col] = v\<close> is \<open>AList.update col v r\<close> (an assignment to a column that does
  not exist yet appends it).
\<close>

type_synonym row = "(string \<times> cell) list"
type_synonym frame = "row list"

text \<open>\<^verbatim>\<open>isinstance(v, (int, float)) and not pd.isna(v)\<close>\<close>

fun is_number :: "cell \<Rightarrow> bool" where
  "is_number (Num x) = True"
| "is_number NaN = False"
| "is_number (Str s) = False"

text \<open>\<^verbatim>\<open>isinstance(v, str)\<close>\<close>

fun is_str :: "cell \<Rightarrow> bool" where
  "is_str (Str s) = True"
| "is_str (Num x) = False"
| "is_str NaN = False"

section \<open>Double-precision arithmetic\<close>

text \<open>
  A Python \<^verbatim>\<open>float\<close> is an IEEE 754 double, and every arithmetic operation returns the
  exact result rounded to the nearest double, ties to even. \<open>expo x\<close> is the binary exponent
  of a positive \<open>x\<close> (\<open>2 powi expo x \<le> x < 2 powi (expo x + 1)\<close>) and \<open>fl\<close> rounds to 53
  significant bits. Overflow to infinity and gradual underflow are outside the model.
\<close>

definition expo :: "real \<Rightarrow> int" where
  "expo x =
     (if 1 \<le> x then bitlen \<lfloor>x\<rfloor> - 1
      else (let k = bitlen \<lfloor>1 / x\<rfloor> - 1 in if x = 2 powi (- k) then - k else - k - 1))"

definition round_half_even :: "real \<Rightarrow> int" where
  "round_half_even q =
     (let f = \<lfloor>q\<rfloor>; d = q - of_int f
      in if d < 1 / 2 then f else if 1 / 2 < d then f + 1 else if even f then f else f + 1)"

definition fl :: "real \<Rightarrow> real" where
  "fl x =
     (if x = 0 then 0
      else let s = 2 powi (expo \<bar>x\<bar> - 52)
           in sgn x * of_int (round_half_even (\<bar>x\<bar> / s)) * s)"

definition fmul :: "real \<Rightarrow> real \<Rightarrow> real" where
  "fmul a b = fl (a * b)"

definition fadd :: "real \<Rightarrow> real \<Rightarrow> real" where
  "fadd a b = fl (a + b)"

definition fsub :: "real \<Rightarrow> real \<Rightarrow> real" where
  "fsub a b = fl (a - b)"

text \<open>Python's \<^verbatim>\<open>a / b\<close> on numbers raises \<^verbatim>\<open>ZeroDivisionError\<close> when \<open>b\<close> is zero.\<close>

definition fdiv :: "real \<Rightarrow> real \<Rightarrow> exn + real" where
  "fdiv a b = (if b = 0 then Inl ZeroDivisionError else Inr (fl (a / b)))"

section \<open>Missing-value normalizer: \<^verbatim>\<open>change_smd_to_nan\<close>\<close>

text \<open>
  \<^verbatim>\<open>df_new[col] = df_new[col].replace(missing_markers)\<close> replaces every cell that equals a
  key of the dictionary with that key's value; the keys are strings, so only string cells
  match.
\<close>

definition missing_markers :: "(string \<times> cell) list" where
  "missing_markers =
     [(''SMD'', NaN), (''smd'', NaN),
      (''Notreported'', Str ''Unknown''), (''not reported'', Str ''Unknown''),
      (''Not reported'', Str ''Unknown''), (''NOT REPORTED'', Str ''Unknown'')]"

fun replace_cell :: "cell \<Rightarrow> cell" where
  "replace_cell (Str s) = (case map_of missing_markers s of Some v \<Rightarrow> v | None \<Rightarrow> Str s)"
| "replace_cell (Num x) = Num x"
| "replace_cell NaN = NaN"

definition change_smd_row :: "row \<Rightarrow> row" where
  "change_smd_row r = map (\<lambda>(col, v). (col, replace_cell v)) r"

definition change_smd_to_nan :: "frame \<Rightarrow> frame" where
  "change_smd_to_nan df = map change_smd_row df"

section \<open>Strings\<close>

text \<open>\<^verbatim>\<open>k in t\<close> on strings: \<open>k\<close> occurs in \<open>t\<close> as a contiguous substring.\<close>

fun starts_with :: "string \<Rightarrow> string \<Rightarrow> bool" where
  "starts_with [] t = True"
| "starts_with (a # k) [] = False"
| "starts_with (a # k) (b # t) = (a = b \<and> starts_with k t)"

fun contains :: "string \<Rightarrow> string \<Rightarrow> bool" where
  "contains k [] = (k = [])"
| "contains k (b # t) = (starts_with k (b # t) \<or> contains k t)"

text \<open>\<^verbatim>\<open>str.lower\<close> on the ASCII letters (the keywords searched for are ASCII).\<close>

definition lower_char :: "char \<Rightarrow> char" where
  "lower_char c =
     (if (65::nat) \<le> of_char c \<and> of_char c \<le> (90::nat) then char_of (of_char c + (32::nat)) else c)"

text \<open>
  \<^verbatim>\<open>str(v).lower()\<close>. The text of a number is made of digits, a sign, a point and an
  exponent mark: it is not empty and none of the keywords below occurs in it, which is all
  the code asks of it, so it is \<open>None\<close> here. The text of \<^verbatim>\<open>nan\<close> is \<^verbatim>\<open>"nan"\<close>.
\<close>

fun str_lower :: "cell \<Rightarrow> string option" where
  "str_lower (Str s) = Some (map lower_char s)"
| "str_lower NaN = Some ''nan''"
| "str_lower (Num x) = None"

text \<open>\<^verbatim>\<open>any(keyword in text for keyword in keywords)\<close>\<close>

definition any_keyword_in :: "string list \<Rightarrow> string option \<Rightarrow> bool" where
  "any_keyword_in ks text =
     (case text of None \<Rightarrow> False | Some t \<Rightarrow> list_ex (\<lambda>k. contains k t) ks)"

text \<open>
  \<^verbatim>\<open>float(s)\<close> on a string is Python's own parser: it is a parameter of the model, giving
  the number or \<^verbatim>\<open>nan\<close>, and \<open>None\<close> where it raises \<^verbatim>\<open>ValueError\<close>.
\<close>

datatype pyfloat = Fl real | FlNaN

type_synonym float_fn = "string \<Rightarrow> pyfloat option"

section \<open>Range resolver: \<^verbatim>\<open>parse_range_to_mean\<close>\<close>

text \<open>
  The pattern handed to \<^verbatim>\<open>re.findall\<close> is the raw string literal
  \<^verbatim>\<open>r"\\d+\\.?\\d*"\<close>. In a raw literal a backslash escapes nothing, so the pattern text
  has two backslashes before each letter, and the regular expression reads: a literal
  backslash, one or more letters \<^verbatim>\<open>d\<close>, a literal backslash, at most one arbitrary
  character other than a newline, a literal backslash, any number of letters \<^verbatim>\<open>d\<close>.
\<close>

datatype atom = Lit char | AnyChar

datatype quant = One | Opt | Star | Plus

type_synonym regex = "(atom \<times> quant) list"

definition backslash :: char where
  "backslash = char_of (92::nat)"

definition newline :: char where
  "newline = char_of (10::nat)"

definition numbers_pattern :: regex where
  "numbers_pattern =
     [(Lit backslash, One), (Lit CHR ''d'', Plus), (Lit backslash, One), (AnyChar, Opt),
      (Lit backslash, One), (Lit CHR ''d'', Star)]"

fun atom_matches :: "atom \<Rightarrow> char \<Rightarrow> bool" where
  "atom_matches (Lit a) c = (a = c)"
| "atom_matches AnyChar c = (c \<noteq> newline)"

text \<open>
  The backtracking matcher, anchored at the start of the text: the number of characters the
  first successful match consumes. Quantifiers are greedy: they try the longer match first.
\<close>

fun match_here :: "regex \<Rightarrow> string \<Rightarrow> nat option" where
  "match_here [] s = Some 0"
| "match_here ((a, One) # p) [] = None"
| "match_here ((a, One) # p) (c # s) =
     (if atom_matches a c then map_option Suc (match_here p s) else None)"
| "match_here ((a, Opt) # p) [] = match_here p []"
| "match_here ((a, Opt) # p) (c # s) =
     (case (if atom_matches a c then map_option Suc (match_here p s) else None) of
        Some n \<Rightarrow> Some n
      | None \<Rightarrow> match_here p (c # s))"
| "match_here ((a, Star) # p) [] = match_here p []"
| "match_here ((a, Star) # p) (c # s) =
     (case (if atom_matches a c then map_option Suc (match_here ((a, Star) # p) s) else None) of
        Some n \<Rightarrow> Some n
      | None \<Rightarrow> match_here p (c # s))"
| "match_here ((a, Plus) # p) [] = None"
| "match_here ((a, Plus) # p) (c # s) =
     (if atom_matches a c then map_option Suc (match_here ((a, Star) # p) s) else None)"

text \<open>
  \<^verbatim>\<open>re.findall\<close>: the matches from left to right, without overlap; after an empty match the
  scan moves on by one character. \<open>findall_fuel\<close> scans with one unit of fuel per position
  of the text, which is always enough.
\<close>

fun findall_fuel :: "nat \<Rightarrow> regex \<Rightarrow> string \<Rightarrow> string list" where
  "findall_fuel 0 p s = []"
| "findall_fuel (Suc k) p s =
     (case match_here p s of
        None \<Rightarrow> (case s of [] \<Rightarrow> [] | c # t \<Rightarrow> findall_fuel k p t)
      | Some n \<Rightarrow>
          take n s # (if s = [] then [] else findall_fuel k p (drop (max 1 n) s)))"

definition findall :: "regex \<Rightarrow> string \<Rightarrow> string list" where
  "findall p s = findall_fuel (Suc (length s)) p s"

text \<open>
  \<^verbatim>\<open>np.mean([float(x) for x in numbers])\<close>: the first \<^verbatim>\<open>ValueError\<close> of \<^verbatim>\<open>float\<close> ends
  the comprehension; a \<^verbatim>\<open>nan\<close> among the numbers makes the mean \<^verbatim>\<open>nan\<close>. The mean is
  taken as the exact mean, rounded once.
\<close>

fun floats_of :: "float_fn \<Rightarrow> string list \<Rightarrow> pyfloat list option" where
  "floats_of pf [] = Some []"
| "floats_of pf (x # xs) =
     (case pf x of
        None \<Rightarrow> None
      | Some v \<Rightarrow> map_option ((#) v) (floats_of pf xs))"

fun finite_values :: "pyfloat list \<Rightarrow> real list option" where
  "finite_values [] = Some []"
| "finite_values (FlNaN # vs) = None"
| "finite_values (Fl x # vs) = map_option ((#) x) (finite_values vs)"

definition np_mean :: "pyfloat list \<Rightarrow> pyfloat" where
  "np_mean vs =
     (case finite_values vs of
        None \<Rightarrow> FlNaN
      | Some xs \<Rightarrow> if xs = [] then FlNaN else Fl (fl (sum_list xs / real (length xs))))"

text \<open>
  The body of the loop over the rows, for one cell of a listed column; the handler of
  \<^verbatim>\<open>ValueError\<close> goes on to the next row and leaves the cell as it is.
\<close>

definition parse_range_cell :: "float_fn \<Rightarrow> cell \<Rightarrow> cell" where
  "parse_range_cell pf value =
     (case value of
        Str s \<Rightarrow>
          if CHR '','' \<in> set s \<and> CHR '':'' \<notin> set s then
            (let numbers = findall numbers_pattern s
             in if numbers \<noteq> [] then
                  (case floats_of pf numbers of
                     None \<Rightarrow> value
                   | Some vs \<Rightarrow> (case np_mean vs of Fl m \<Rightarrow> Num m | FlNaN \<Rightarrow> value))
                else value)
          else value
      | _ \<Rightarrow> value)"

definition numeric_columns :: "string list" where
  "numeric_columns =
     [''glass_transition_temperature'', ''glass_transition_temperature_run_2'',
      ''cure_ratio'', ''Fiber_content_weight'', ''Fiber_content_volume'',
      ''Void_content'', ''diameter'', ''average_area'', ''nominal_area'',
      ''num_1'', ''temperature'', ''pH_of_concrete'', ''strength_of_concrete'',
      ''crack'', ''pH_1'', ''pHafter'', ''RH_1'', ''field_average_humidity'',
      ''field_average_temperature'', ''temp'', ''temp2'', ''value_load'',
      ''Value1_1'', ''COV1_1'', ''Value2_1'', ''COV2_1'', ''Value3_1'', ''COV3_1'']"

definition parse_range_row :: "float_fn \<Rightarrow> row \<Rightarrow> row" where
  "parse_range_row pf r =
     map (\<lambda>(col, v). (col, if col \<in> set numeric_columns then parse_range_cell pf v else v)) r"

definition parse_range_to_mean :: "float_fn \<Rightarrow> frame \<Rightarrow> frame" where
  "parse_range_to_mean pf df = map (parse_range_row pf) df"

section \<open>Feature derivation: \<^verbatim>\<open>create_selected_features\<close>\<close>

definition feature_columns :: "string list" where
  "feature_columns =
     [''pH_of_condition_enviroment'', ''Chloride_ion'', ''concrete'',
      ''diameter'', ''load_value'', ''fiber_content'', ''Glass_or_Basalt'',
      ''Vinyl_ester_or_Epoxy'', ''condition_time'', ''Temperature'',
      ''Tensile_strength_retention'', ''surface_treatment'',
      ''max_strength'', ''glass_transition_temperature'']"

text \<open>\<^verbatim>\<open>if col not in df_new.columns: df_new[col] = np.nan\<close>, for every feature column.\<close>

definition init_column :: "string \<Rightarrow> row \<Rightarrow> row" where
  "init_column col r = (if map_of r col = None then AList.update col NaN r else r)"

definition init_features :: "row \<Rightarrow> row" where
  "init_features r = fold init_column feature_columns r"

subsection \<open>Rule 1: pH and chloride\<close>

text \<open>The first listed column that exists and holds a number.\<close>

fun first_number :: "row \<Rightarrow> string list \<Rightarrow> real option" where
  "first_number r [] = None"
| "first_number r (col # cols) =
     (case map_of r col of Some (Num x) \<Rightarrow> Some x | _ \<Rightarrow> first_number r cols)"

text \<open>
  The solution branch: the pH found, and whether the sea-water case sets the chloride flag.
\<close>

definition solution_ph :: "row \<Rightarrow> real \<times> bool" where
  "solution_ph r =
     (case map_of r ''solution_condition'' of
        Some (Num x) \<Rightarrow> (x, False)
      | _ \<Rightarrow>
        (case first_number r [''pH_1'', ''pH'', ''ph'', ''PH''] of
           Some x \<Rightarrow> (x, False)
         | None \<Rightarrow>
           (let solution_text =
                  (case map_of r ''solution_condition'' of Some v \<Rightarrow> str_lower v | None \<Rightarrow> Some []);
                solution_text =
                  (if solution_text = Some [] then
                     (case map_of r ''ingredient_1'' of Some v \<Rightarrow> str_lower v | None \<Rightarrow> solution_text)
                   else solution_text)
            in if any_keyword_in
                    [''tap water'', ''sea water'', ''seawater'', ''distilled water'',
                     ''deionized water'', ''di water'', ''pure water''] solution_text
               then (7, any_keyword_in [''sea''] solution_text)
               else (7, False))))"

text \<open>Step 1: the kind of environment, from the text of the environment or from the concrete columns.\<close>

definition is_concrete_environment :: "row \<Rightarrow> bool" where
  "is_concrete_environment r =
     ((case map_of r ''Condition_environment'' of
         Some v \<Rightarrow>
           any_keyword_in [''concrete'', ''cover'', ''crack'', ''cement'', ''mortar''] (str_lower v)
       | None \<Rightarrow> False)
      \<or> list_ex (\<lambda>col. case map_of r col of Some v \<Rightarrow> is_str v \<or> is_number v | None \<Rightarrow> False)
           [''concrete'', ''crack'', ''cover'', ''cement''])"

text \<open>Step 2: the pH in concrete.\<close>

definition concrete_ph :: "row \<Rightarrow> real" where
  "concrete_ph r = (case map_of r ''pH_of_concrete'' of Some (Num x) \<Rightarrow> x | _ \<Rightarrow> 13)"

text \<open>The last check: a chloride keyword in the text of the ingredient.\<close>

definition mentions_chloride :: "row \<Rightarrow> bool" where
  "mentions_chloride r =
     (case map_of r ''ingredient_1'' of
        Some v \<Rightarrow>
          any_keyword_in [''cl'', ''chloride'', ''nacl'', ''cacl2'', ''mgcl2'', ''salt''] (str_lower v)
      | None \<Rightarrow> False)"

definition process_ph_and_chloride :: "row \<Rightarrow> row" where
  "process_ph_and_chloride r0 =
     (let r = AList.update ''Chloride_ion'' (Num 0) r0;
          (final_ph, sea) =
            (if is_concrete_environment r then (concrete_ph r, False) else solution_ph r);
          r = (if sea then AList.update ''Chloride_ion'' (Num 1) r else r);
          final_ph =
            (case map_of r ''pHafter'' of
               Some (Num ph_after) \<Rightarrow> fl (fadd final_ph ph_after / 2)
             | _ \<Rightarrow> final_ph);
          r = AList.update ''pH_of_condition_enviroment'' (Num final_ph) r
      in if mentions_chloride r then AList.update ''Chloride_ion'' (Num 1) r else r)"

subsection \<open>Rule 2: concrete indicator\<close>

definition process_concrete_indicator :: "row \<Rightarrow> row" where
  "process_concrete_indicator r =
     (let concrete_indicator =
        (if list_ex (\<lambda>col. case map_of r col of
                            Some v \<Rightarrow> is_str v \<or> is_number v | None \<Rightarrow> False)
              [''concrete'', ''crack'', ''cover'']
         then 1 else 0)
      in AList.update ''concrete'' (Num concrete_indicator) r)"

subsection \<open>Rule 3: diameter\<close>

text \<open>
  \<^verbatim>\<open>2 * np.sqrt(area_value / np.pi)\<close>. The square root and \<open>pi\<close> are those of the reals,
  so this equation defines the value without computing it.
\<close>

definition calculated_diameter :: "real \<Rightarrow> real" where
  "calculated_diameter area_value = fmul 2 (fl (sqrt (fl (area_value / fl pi))))"

declare calculated_diameter_def [code del]

definition process_diameter :: "row \<Rightarrow> row" where
  "process_diameter r =
     (case map_of r ''diameter'' of
        Some (Num d) \<Rightarrow> AList.update ''diameter'' (Num d) r
      | _ \<Rightarrow>
        (case map_of r ''nominal_area'' of
           Some (Num area_value) \<Rightarrow>
             if 0 < area_value
             then AList.update ''diameter'' (Num (calculated_diameter area_value)) r
             else r
         | _ \<Rightarrow> r))"

subsection \<open>Rule 4: load\<close>

definition process_load :: "row \<Rightarrow> row" where
  "process_load r =
     (if map_of r ''type_of_load'' = Some (Str ''preloading'')
      then AList.update ''load_value'' (Num 0) r
      else
        (let load_value =
           (case (map_of r ''stress_or_strain'', map_of r ''value_load'') of
              (Some stress_strain, Some (Num v)) \<Rightarrow>
                if stress_strain = Str ''stress'' then
                  (case map_of r ''ultimate_tensile_strength'' of
                     Some (Num uts) \<Rightarrow> if 0 < uts then fl (v / uts) else 0
                   | _ \<Rightarrow> 0)
                else if stress_strain = Str ''strain'' then
                  (case (map_of r ''tensile_modulus'', map_of r ''ultimate_tensile_strength'') of
                     (Some (Num modulus), Some (Num uts)) \<Rightarrow>
                       if 0 < modulus \<and> 0 < uts
                       then fl (fmul (fmul v (fl (1 / 1000))) modulus / uts)
                       else 0
                   | _ \<Rightarrow> 0)
                else 0
            | _ \<Rightarrow> 0)
         in AList.update ''load_value'' (Num load_value) r))"

subsection \<open>Rule 5: fibre content\<close>

text \<open>\<^verbatim>\<open>config.MATERIAL_PROPERTIES\<close>: the decimal literals, read as doubles.\<close>

definition fiber_densities :: "(string \<times> real) list" where
  "fiber_densities =
     [(''Glass'', fl (255 / 100)), (''Carbon'', fl (184 / 100)), (''Basalt'', fl (267 / 100))]"

definition matrix_densities :: "(string \<times> real) list" where
  "matrix_densities =
     [(''Vinyl ester'', fl (109 / 100)), (''Epoxy'', fl (11 / 10)), (''Polyester'', fl (138 / 100))]"

text \<open>\<^verbatim>\<open>table.get(key, default)\<close>: the keys are strings, so no other cell is found.\<close>

definition density_of :: "(string \<times> real) list \<Rightarrow> real \<Rightarrow> cell \<Rightarrow> real" where
  "density_of table dflt key =
     (case key of
        Str s \<Rightarrow> (case map_of table s of Some d \<Rightarrow> d | None \<Rightarrow> dflt)
      | _ \<Rightarrow> dflt)"

text \<open>
  \<^verbatim>\<open>(100.0 * V * df) / (V * df + (100.0 - V) * dm)\<close>, each operation rounded as Python does.
\<close>

definition volume_to_weight :: "real \<Rightarrow> real \<Rightarrow> real \<Rightarrow> exn + real" where
  "volume_to_weight v df dm =
     fdiv (fmul (fmul 100 v) df) (fadd (fmul v df) (fmul (fsub 100 v) dm))"

definition process_fiber_content :: "row \<Rightarrow> exn + row" where
  "process_fiber_content r =
     (case map_of r ''Fiber_content_weight'' of
        Some (Num weight_content) \<Rightarrow> Inr (AList.update ''fiber_content'' (Num weight_content) r)
      | _ \<Rightarrow>
        (case map_of r ''Fiber_content_volume'' of
           Some (Num volume_content) \<Rightarrow>
             (let fiber_type =
                    (case map_of r ''Fiber_type'' of Some t \<Rightarrow> t | None \<Rightarrow> Str ''Unknown'');
                  matrix_type =
                    (case map_of r ''Matrix_type'' of Some t \<Rightarrow> t | None \<Rightarrow> Str ''Unknown'');
                  density_fiber = density_of fiber_densities 2 fiber_type;
                  density_matrix = density_of matrix_densities (fl (12 / 10)) matrix_type
              in case volume_to_weight volume_content density_fiber density_matrix of
                   Inl e \<Rightarrow> Inl e
                 | Inr weight_content \<Rightarrow>
                     Inr (AList.update ''fiber_content'' (Num weight_content) r))
         | _ \<Rightarrow> Inr r))"

subsection \<open>Rules 6 and 7: material types and surface treatment\<close>

definition process_material_types :: "row \<Rightarrow> row" where
  "process_material_types r0 =
     (let r =
        (if map_of r0 ''Fiber_type'' = Some (Str ''Glass'')
         then AList.update ''Glass_or_Basalt'' (Num 1) r0
         else if map_of r0 ''Fiber_type'' = Some (Str ''Basalt'')
         then AList.update ''Glass_or_Basalt'' (Num 0) r0
         else r0)
      in if map_of r ''Matrix_type'' = Some (Str ''Vinyl ester'')
         then AList.update ''Vinyl_ester_or_Epoxy'' (Num 1) r
         else if map_of r ''Matrix_type'' = Some (Str ''Epoxy'')
         then AList.update ''Vinyl_ester_or_Epoxy'' (Num 0) r
         else r)"

definition process_surface_treatment :: "row \<Rightarrow> row" where
  "process_surface_treatment r =
     (if map_of r ''surface_treatment'' = Some (Str ''sand coated'')
      then AList.update ''surface_treatment'' (Num 0) r
      else if map_of r ''surface_treatment'' = Some (Str ''Smooth'')
      then AList.update ''surface_treatment'' (Num 1) r
      else r)"

subsection \<open>Rule 8: the directly mapped features\<close>

definition feature_mappings :: "(string \<times> string) list" where
  "feature_mappings =
     [(''condition_time'', ''time_field''),
      (''Temperature'', ''temperature''),
      (''Tensile_strength_retention'', ''retention1''),
      (''Target_parameter'', ''Target_parameter''),
      (''max_strength'', ''Value1_1''),
      (''glass_transition_temperature'', ''glass_transition_temperature'')]"

text \<open>
  \<^verbatim>\<open>value.strip() != ''\<close>: some character of the string is not white space (the
  white space of ASCII).
\<close>

definition is_space :: "char \<Rightarrow> bool" where
  "is_space c = (of_char c \<in> {9, 10, 11, 12, 13, 28, 29, 30, 31, 32 :: nat})"

definition not_blank :: "string \<Rightarrow> bool" where
  "not_blank s = list_ex (\<lambda>c. \<not> is_space c) s"

definition map_feature :: "float_fn \<Rightarrow> string \<times> string \<Rightarrow> row \<Rightarrow> row" where
  "map_feature pf m r =
     (let new_col = fst m; old_col = snd m
      in case map_of r old_col of
           None \<Rightarrow> r
         | Some v \<Rightarrow>
             if new_col = ''Target_parameter'' then AList.update new_col v r
             else (case v of
                     Num x \<Rightarrow> AList.update new_col (Num x) r
                   | NaN \<Rightarrow> r
                   | Str s \<Rightarrow>
                       if not_blank s then
                         (case pf s of
                            Some (Fl numeric_value) \<Rightarrow> AList.update new_col (Num numeric_value) r
                          | Some FlNaN \<Rightarrow> r
                          | None \<Rightarrow> r)
                       else r))"

definition process_other_features :: "float_fn \<Rightarrow> row \<Rightarrow> row" where
  "process_other_features pf r = fold (map_feature pf) feature_mappings r"

subsection \<open>The loop over the records\<close>

text \<open>
  The eight calls stand in one \<^verbatim>\<open>try\<close> block whose handler is \<^verbatim>\<open>continue\<close>: the first
  call that raises ends the block, and the record keeps what was written until then. Of the
  eight rules only the fibre-content rule has an operation that can raise on the cells of
  the model (its division), and it writes nothing before that operation.
\<close>

type_synonym rule = "row \<Rightarrow> exn + row"

definition rules :: "float_fn \<Rightarrow> rule list" where
  "rules pf =
     [Inr \<circ> process_ph_and_chloride,
      Inr \<circ> process_concrete_indicator,
      Inr \<circ> process_diameter,
      Inr \<circ> process_load,
      process_fiber_content,
      Inr \<circ> process_material_types,
      Inr \<circ> process_surface_treatment,
      Inr \<circ> process_other_features pf]"

fun run_rules :: "rule list \<Rightarrow> row \<Rightarrow> row" where
  "run_rules [] r = r"
| "run_rules (f # fs) r = (case f r of Inl e \<Rightarrow> r | Inr r' \<Rightarrow> run_rules fs r')"

definition derive_row :: "float_fn \<Rightarrow> row \<Rightarrow> row" where
  "derive_row pf r = run_rules (rules pf) (init_features r)"

definition create_selected_features :: "float_fn \<Rightarrow> frame \<Rightarrow> frame" where
  "create_selected_features pf df = map (derive_row pf) df"

text \<open>
  The rules before the fibre-content rule, and the rules after it, as the block calls them.
\<close>

definition first_rules :: "row \<Rightarrow> row" where
  "first_rules r =
     process_load (process_diameter (process_concrete_indicator (process_ph_and_chloride r)))"

definition last_rules :: "float_fn \<Rightarrow> row \<Rightarrow> row" where
  "last_rules pf r =
     process_other_features pf (process_surface_treatment (process_material_types r))"

text \<open>The fields of the first four rules.\<close>

definition first_fields :: "string list" where
  "first_fields =
     [''pH_of_condition_enviroment'', ''Chloride_ion'', ''concrete'', ''diameter'', ''load_value'']"

section \<open>Properties\<close>

lemma replace_cell_idem: "replace_cell (replace_cell c) = replace_cell c"
proof (cases c)
  case (Str s)
  show ?thesis
  proof (cases "map_of missing_markers s")
    case None
    with Str show ?thesis by simp
  next
    case (Some v)
    then have "v = NaN \<or> v = Str ''Unknown''"
      by (auto simp: missing_markers_def split: if_splits)
    moreover have "replace_cell (Str ''Unknown'') = Str ''Unknown''"
      by (simp add: missing_markers_def)
    ultimately show ?thesis using Str Some by auto
  qed
qed simp_all

lemma change_smd_row_idem: "change_smd_row (change_smd_row r) = change_smd_row r"
  by (induction r) (auto simp: change_smd_row_def replace_cell_idem)

text \<open>
  C7. The Missing-Value Normalizer is idempotent: normalizing an already normalized frame
  changes nothing, for every frame (and so for every record of it).
\<close>

theorem change_smd_to_nan_idempotent:
  "change_smd_to_nan (change_smd_to_nan df) = change_smd_to_nan df"
  by (induction df) (simp_all add: change_smd_to_nan_def change_smd_row_idem)

subsection \<open>What each rule writes\<close>

lemma map_of_init_column:
  "map_of (init_column col r) c = (if c = col \<and> map_of r c = None then Some NaN else map_of r c)"
  by (auto simp: init_column_def update_conv')

lemma map_of_fold_init_column:
  "map_of (fold init_column cols r) c =
     (if c \<in> set cols \<and> map_of r c = None then Some NaN else map_of r c)"
  by (induction cols arbitrary: r) (auto simp: map_of_init_column)

lemma map_of_init_features:
  "map_of (init_features r) c =
     (if c \<in> set feature_columns \<and> map_of r c = None then Some NaN else map_of r c)"
  by (simp add: init_features_def map_of_fold_init_column)

lemma ph_frame:
  "c \<noteq> ''Chloride_ion'' \<Longrightarrow> c \<noteq> ''pH_of_condition_enviroment'' \<Longrightarrow>
   map_of (process_ph_and_chloride r) c = map_of r c"
  by (simp add: process_ph_and_chloride_def Let_def update_conv' split: prod.splits)

lemma ph_writes_ph:
  "\<exists>x. map_of (process_ph_and_chloride r) ''pH_of_condition_enviroment'' = Some (Num x)"
  by (simp add: process_ph_and_chloride_def Let_def update_conv' split: prod.splits)

lemma ph_writes_chloride:
  "map_of (process_ph_and_chloride r) ''Chloride_ion'' = Some (Num 0) \<or>
   map_of (process_ph_and_chloride r) ''Chloride_ion'' = Some (Num 1)"
  by (simp add: process_ph_and_chloride_def Let_def update_conv' split: prod.splits)

lemma concrete_frame:
  "c \<noteq> ''concrete'' \<Longrightarrow> map_of (process_concrete_indicator r) c = map_of r c"
  by (simp add: process_concrete_indicator_def Let_def update_conv')

lemma concrete_writes:
  "map_of (process_concrete_indicator r) ''concrete'' = Some (Num 0) \<or>
   map_of (process_concrete_indicator r) ''concrete'' = Some (Num 1)"
  by (simp add: process_concrete_indicator_def Let_def update_conv')

lemma diameter_frame:
  "c \<noteq> ''diameter'' \<Longrightarrow> map_of (process_diameter r) c = map_of r c"
  by (simp add: process_diameter_def update_conv' split: option.splits cell.splits)

lemma diameter_str:
  "map_of (process_diameter r) ''diameter'' = Some (Str s) \<Longrightarrow> map_of r ''diameter'' = Some (Str s)"
  by (auto simp: process_diameter_def update_conv' split: option.splits cell.splits if_splits)

lemma load_frame:
  "c \<noteq> ''load_value'' \<Longrightarrow> map_of (process_load r) c = map_of r c"
  by (simp add: process_load_def Let_def update_conv')

lemma load_writes:
  "\<exists>x. map_of (process_load r) ''load_value'' = Some (Num x)"
  by (simp add: process_load_def Let_def update_conv')

lemma load_preloading:
  "map_of r ''type_of_load'' = Some (Str ''preloading'') \<Longrightarrow>
   map_of (process_load r) ''load_value'' = Some (Num 0)"
  by (simp add: process_load_def update_conv')

lemma fiber_frame:
  "process_fiber_content r = Inr r' \<Longrightarrow> c \<noteq> ''fiber_content'' \<Longrightarrow> map_of r' c = map_of r c"
  by (auto simp: process_fiber_content_def Let_def update_conv'
      split: option.splits cell.splits sum.splits)

lemma fiber_str:
  "process_fiber_content r = Inr r' \<Longrightarrow> map_of r' c = Some (Str s) \<Longrightarrow> map_of r c = Some (Str s)"
  by (auto simp: process_fiber_content_def Let_def update_conv'
      split: option.splits cell.splits sum.splits if_splits)

lemma material_frame:
  "c \<noteq> ''Glass_or_Basalt'' \<Longrightarrow> c \<noteq> ''Vinyl_ester_or_Epoxy'' \<Longrightarrow>
   map_of (process_material_types r) c = map_of r c"
  by (simp add: process_material_types_def Let_def update_conv')

lemma material_str:
  "map_of (process_material_types r) c = Some (Str s) \<Longrightarrow> map_of r c = Some (Str s)"
  by (auto simp: process_material_types_def Let_def update_conv' split: if_splits)

lemma surface_frame:
  "c \<noteq> ''surface_treatment'' \<Longrightarrow> map_of (process_surface_treatment r) c = map_of r c"
  by (simp add: process_surface_treatment_def update_conv')

lemma surface_str:
  "map_of (process_surface_treatment r) c = Some (Str s) \<Longrightarrow> map_of r c = Some (Str s)"
  by (auto simp: process_surface_treatment_def update_conv' split: if_splits)

lemma map_feature_frame:
  "c \<noteq> fst m \<Longrightarrow> map_of (map_feature pf m r) c = map_of r c"
  by (auto simp: map_feature_def Let_def update_conv' split: option.splits cell.splits pyfloat.splits)

lemma map_feature_str:
  "fst m = ''Target_parameter'' \<longrightarrow> snd m = ''Target_parameter'' \<Longrightarrow>
   map_of (map_feature pf m r) c = Some (Str s) \<Longrightarrow> map_of r c = Some (Str s)"
  by (auto simp: map_feature_def Let_def update_conv'
      split: option.splits cell.splits pyfloat.splits if_splits)

lemma other_frame:
  "c \<notin> fst ` set ms \<Longrightarrow> map_of (fold (map_feature pf) ms r) c = map_of r c"
  by (induction ms arbitrary: r) (auto simp: map_feature_frame)

lemma other_str:
  "list_all (\<lambda>m. fst m = ''Target_parameter'' \<longrightarrow> snd m = ''Target_parameter'') ms \<Longrightarrow>
   map_of (fold (map_feature pf) ms r) c = Some (Str s) \<Longrightarrow> map_of r c = Some (Str s)"
proof (induction ms arbitrary: r)
  case Nil
  then show ?case by simp
next
  case (Cons m ms)
  from Cons.prems have "map_of (map_feature pf m r) c = Some (Str s)"
    using Cons.IH [of "map_feature pf m r"] by simp
  with Cons.prems show ?case using map_feature_str [of m pf r c s] by simp
qed

lemma other_features_frame:
  "c \<notin> set [''condition_time'', ''Temperature'', ''Tensile_strength_retention'',
      ''Target_parameter'', ''max_strength'', ''glass_transition_temperature''] \<Longrightarrow>
   map_of (process_other_features pf r) c = map_of r c"
  unfolding process_other_features_def
  by (rule other_frame) (simp add: feature_mappings_def)

lemma other_features_str:
  "map_of (process_other_features pf r) c = Some (Str s) \<Longrightarrow> map_of r c = Some (Str s)"
  unfolding process_other_features_def
  by (erule other_str [rotated]) (simp add: feature_mappings_def)

lemma ph_str:
  assumes "map_of (process_ph_and_chloride r) c = Some (Str s)"
  shows "map_of r c = Some (Str s)"
proof -
  have "c \<noteq> ''Chloride_ion''"
    using assms ph_writes_chloride [of r] by auto
  moreover have "c \<noteq> ''pH_of_condition_enviroment''"
    using assms ph_writes_ph [of r] by auto
  ultimately show ?thesis using assms ph_frame [of c r] by simp
qed

lemma concrete_str:
  assumes "map_of (process_concrete_indicator r) c = Some (Str s)"
  shows "map_of r c = Some (Str s)"
proof -
  have "c \<noteq> ''concrete''"
    using assms concrete_writes [of r] by auto
  then show ?thesis using assms concrete_frame [of c r] by simp
qed

lemma load_str:
  assumes "map_of (process_load r) c = Some (Str s)"
  shows "map_of r c = Some (Str s)"
proof -
  have "c \<noteq> ''load_value''"
    using assms load_writes [of r] by auto
  then show ?thesis using assms load_frame [of c r] by simp
qed

lemma diameter_str_any:
  assumes "map_of (process_diameter r) c = Some (Str s)"
  shows "map_of r c = Some (Str s)"
proof (cases "c = ''diameter''")
  case True
  with assms show ?thesis using diameter_str [of r s] by simp
next
  case False
  with assms show ?thesis using diameter_frame [of c r] by simp
qed

text \<open>The rules keep the columns of the record.\<close>

lemma diameter_keeps:
  assumes "map_of r c = Some v"
  shows "\<exists>w. map_of (process_diameter r) c = Some w"
proof (cases "c = ''diameter''")
  case True
  with assms show ?thesis
    by (auto simp: process_diameter_def update_conv' split: option.splits cell.splits)
next
  case False
  with assms show ?thesis by (simp add: diameter_frame)
qed

lemma fiber_keeps:
  assumes "process_fiber_content r = Inr r'" and "map_of r c = Some v"
  shows "\<exists>w. map_of r' c = Some w"
proof (cases "c = ''fiber_content''")
  case True
  with assms show ?thesis
    by (auto simp: process_fiber_content_def Let_def update_conv'
        split: option.splits cell.splits sum.splits)
next
  case False
  with assms show ?thesis using fiber_frame [of r r' c] by simp
qed

lemma material_keeps:
  "map_of r c = Some v \<Longrightarrow> \<exists>w. map_of (process_material_types r) c = Some w"
  by (auto simp: process_material_types_def Let_def update_conv')

lemma surface_keeps:
  "map_of r c = Some v \<Longrightarrow> \<exists>w. map_of (process_surface_treatment r) c = Some w"
  by (auto simp: process_surface_treatment_def update_conv')

lemma map_feature_keeps:
  "map_of r c = Some v \<Longrightarrow> \<exists>w. map_of (map_feature pf m r) c = Some w"
  by (auto simp: map_feature_def Let_def update_conv' split: option.splits cell.splits pyfloat.splits)

lemma other_keeps:
  "map_of r c = Some v \<Longrightarrow> \<exists>w. map_of (fold (map_feature pf) ms r) c = Some w"
proof (induction ms arbitrary: r v)
  case Nil
  then show ?case by simp
next
  case (Cons m ms)
  from Cons.prems obtain w where "map_of (map_feature pf m r) c = Some w"
    using map_feature_keeps by blast
  then show ?case using Cons.IH by simp
qed

lemma other_features_keeps:
  "map_of r c = Some v \<Longrightarrow> \<exists>w. map_of (process_other_features pf r) c = Some w"
  unfolding process_other_features_def by (rule other_keeps)

lemma ph_keeps:
  assumes "map_of r c = Some v"
  shows "\<exists>w. map_of (process_ph_and_chloride r) c = Some w"
proof -
  consider "c = ''Chloride_ion''" | "c = ''pH_of_condition_enviroment''"
    | "c \<noteq> ''Chloride_ion''" "c \<noteq> ''pH_of_condition_enviroment''" by blast
  then show ?thesis
  proof cases
    case 1
    then show ?thesis using ph_writes_chloride [of r] by auto
  next
    case 2
    then show ?thesis using ph_writes_ph [of r] by auto
  next
    case 3
    then show ?thesis using assms by (simp add: ph_frame)
  qed
qed

lemma concrete_keeps:
  assumes "map_of r c = Some v"
  shows "\<exists>w. map_of (process_concrete_indicator r) c = Some w"
proof (cases "c = ''concrete''")
  case True
  then show ?thesis using concrete_writes [of r] by auto
next
  case False
  then show ?thesis using assms by (simp add: concrete_frame)
qed

lemma load_keeps:
  assumes "map_of r c = Some v"
  shows "\<exists>w. map_of (process_load r) c = Some w"
proof (cases "c = ''load_value''")
  case True
  then show ?thesis using load_writes [of r] by auto
next
  case False
  then show ?thesis using assms by (simp add: load_frame)
qed

subsection \<open>The whole block\<close>

lemma derive_row_unfold:
  "derive_row pf r =
     (case process_fiber_content (first_rules (init_features r)) of
        Inl e \<Rightarrow> first_rules (init_features r)
      | Inr r5 \<Rightarrow> last_rules pf r5)"
  by (simp add: derive_row_def rules_def first_rules_def last_rules_def split: sum.splits)

lemma first_rules_frame:
  "c \<notin> set first_fields \<Longrightarrow> map_of (first_rules r) c = map_of r c"
  by (simp add: first_fields_def first_rules_def load_frame diameter_frame concrete_frame ph_frame)

lemma first_rules_str:
  assumes "map_of (first_rules r) c = Some (Str s)"
  shows "map_of r c = Some (Str s)"
proof -
  from assms
  have "map_of (process_diameter (process_concrete_indicator (process_ph_and_chloride r))) c
          = Some (Str s)"
    unfolding first_rules_def by (rule load_str)
  then have "map_of (process_concrete_indicator (process_ph_and_chloride r)) c = Some (Str s)"
    by (rule diameter_str_any)
  then have "map_of (process_ph_and_chloride r) c = Some (Str s)"
    by (rule concrete_str)
  then show ?thesis by (rule ph_str)
qed

lemma first_rules_keeps:
  assumes "map_of r c = Some v"
  shows "\<exists>w. map_of (first_rules r) c = Some w"
proof -
  from assms obtain a where "map_of (process_ph_and_chloride r) c = Some a"
    using ph_keeps by blast
  then obtain b where "map_of (process_concrete_indicator (process_ph_and_chloride r)) c = Some b"
    using concrete_keeps by blast
  then obtain d where
    "map_of (process_diameter (process_concrete_indicator (process_ph_and_chloride r))) c = Some d"
    using diameter_keeps by blast
  then show ?thesis unfolding first_rules_def by (rule load_keeps)
qed

lemma last_rules_frame:
  "c \<notin> set [''Glass_or_Basalt'', ''Vinyl_ester_or_Epoxy'', ''surface_treatment'',
      ''condition_time'', ''Temperature'', ''Tensile_strength_retention'',
      ''Target_parameter'', ''max_strength'', ''glass_transition_temperature''] \<Longrightarrow>
   map_of (last_rules pf r) c = map_of r c"
  by (simp add: last_rules_def other_features_frame surface_frame material_frame)

lemma last_rules_str:
  assumes "map_of (last_rules pf r) c = Some (Str s)"
  shows "map_of r c = Some (Str s)"
proof -
  from assms
  have "map_of (process_surface_treatment (process_material_types r)) c = Some (Str s)"
    unfolding last_rules_def by (rule other_features_str)
  then have "map_of (process_material_types r) c = Some (Str s)"
    by (rule surface_str)
  then show ?thesis by (rule material_str)
qed

lemma last_rules_keeps:
  assumes "map_of r c = Some v"
  shows "\<exists>w. map_of (last_rules pf r) c = Some w"
proof -
  from assms obtain a where "map_of (process_material_types r) c = Some a"
    using material_keeps by blast
  then obtain b where "map_of (process_surface_treatment (process_material_types r)) c = Some b"
    using surface_keeps by blast
  then show ?thesis unfolding last_rules_def by (rule other_features_keeps)
qed

lemma first_rules_numbers:
  "\<exists>x. map_of (first_rules r) ''pH_of_condition_enviroment'' = Some (Num x)"
  "map_of (first_rules r) ''Chloride_ion'' = Some (Num 0) \<or>
   map_of (first_rules r) ''Chloride_ion'' = Some (Num 1)"
  "map_of (first_rules r) ''concrete'' = Some (Num 0) \<or>
   map_of (first_rules r) ''concrete'' = Some (Num 1)"
  "\<exists>x. map_of (first_rules r) ''load_value'' = Some (Num x)"
  using ph_writes_ph [of r] ph_writes_chloride [of r]
    concrete_writes [of "process_ph_and_chloride r"]
    load_writes [of "process_diameter (process_concrete_indicator (process_ph_and_chloride r))"]
  by (simp_all add: first_rules_def load_frame diameter_frame concrete_frame)

text \<open>After the first four rules, the later rules leave their fields as they are.\<close>

lemma later_rules_keep_first:
  assumes "c \<in> set [''pH_of_condition_enviroment'', ''Chloride_ion'', ''concrete'', ''load_value'']"
  shows "map_of (derive_row pf r) c = map_of (first_rules (init_features r)) c"
proof (cases "process_fiber_content (first_rules (init_features r))")
  case (Inl e)
  then show ?thesis by (simp add: derive_row_unfold)
next
  case (Inr r5)
  have "map_of (last_rules pf r5) c = map_of r5 c"
    using assms by (intro last_rules_frame) auto
  also have "\<dots> = map_of (first_rules (init_features r)) c"
    using assms by (intro fiber_frame [OF Inr]) auto
  finally show ?thesis using Inr by (simp add: derive_row_unfold)
qed

lemma derive_row_str:
  assumes "map_of (derive_row pf r) c = Some (Str s)"
  shows "map_of r c = Some (Str s)"
proof -
  have "map_of (first_rules (init_features r)) c = Some (Str s)"
  proof (cases "process_fiber_content (first_rules (init_features r))")
    case (Inl e)
    with assms show ?thesis by (simp add: derive_row_unfold)
  next
    case (Inr r5)
    with assms have "map_of (last_rules pf r5) c = Some (Str s)"
      by (simp add: derive_row_unfold)
    then have "map_of r5 c = Some (Str s)" by (rule last_rules_str)
    then show ?thesis by (rule fiber_str [OF Inr])
  qed
  then have "map_of (init_features r) c = Some (Str s)" by (rule first_rules_str)
  then show ?thesis by (simp add: map_of_init_features split: if_splits)
qed

lemma derive_row_keeps:
  assumes "c \<in> set feature_columns"
  shows "\<exists>w. map_of (derive_row pf r) c = Some w"
proof -
  obtain a where "map_of (init_features r) c = Some a"
    using assms by (cases "map_of r c") (auto simp: map_of_init_features)
  then obtain b where b: "map_of (first_rules (init_features r)) c = Some b"
    using first_rules_keeps by blast
  show ?thesis
  proof (cases "process_fiber_content (first_rules (init_features r))")
    case (Inl e)
    with b show ?thesis by (simp add: derive_row_unfold)
  next
    case (Inr r5)
    from fiber_keeps [OF Inr b] obtain d where "map_of r5 c = Some d" by blast
    then show ?thesis using Inr last_rules_keeps by (simp add: derive_row_unfold)
  qed
qed

section \<open>The claims on feature derivation\<close>

text \<open>
  C8. For every record whose \<^verbatim>\<open>type_of_load\<close> is \<^verbatim>\<open>"preloading"\<close>, the derived load
  fraction is exactly 0, whatever the other fields of the record hold.
\<close>

theorem preloading_load_is_zero:
  assumes "map_of r ''type_of_load'' = Some (Str ''preloading'')"
  shows "map_of (derive_row pf r) ''load_value'' = Some (Num 0)"
proof -
  let ?r3 = "process_diameter (process_concrete_indicator (process_ph_and_chloride (init_features r)))"
  have "map_of (init_features r) ''type_of_load'' = Some (Str ''preloading'')"
    using assms by (simp add: map_of_init_features)
  then have "map_of ?r3 ''type_of_load'' = Some (Str ''preloading'')"
    by (simp add: diameter_frame concrete_frame ph_frame)
  then have "map_of (first_rules (init_features r)) ''load_value'' = Some (Num 0)"
    unfolding first_rules_def by (rule load_preloading)
  then show ?thesis by (simp add: later_rules_keep_first)
qed

theorem preloading_load_is_zero_witness:
  "map_of (derive_row (\<lambda>s. None)
      [(''type_of_load'', Str ''preloading''), (''stress_or_strain'', Str ''stress''),
       (''value_load'', Num 300), (''ultimate_tensile_strength'', Num 1000)]) ''load_value''
   = Some (Num 0)"
  by (rule preloading_load_is_zero) simp

end
